theory Spec2Isabelle
  imports Complex_Main
begin

section \<open>Numbers\<close>

text \<open>
  The calculator (\<^verbatim>\<open>ui/src/lib/calculator.ts\<close>) computes with JavaScript numbers.
  The embedding takes every input field to be a finite number and represents it by a
  \<^typ>\<open>real\<close>; the arithmetic is the exact one, so the rounding of the double format and
  its overflow are outside the model. A division is written with HOL's \<open>/\<close> only where
  the source's denominator cannot be zero (a non-zero literal, or a value the source has
  just tested or clamped). The one division of the pipeline whose denominator is an
  unchecked computed value is modelled by \<open>js_div\<close>, which returns what JavaScript
  returns for a zero denominator.
\<close>

datatype jsnum = Num real | PosInfinity | NegInfinity | NaN

text \<open>\<^verbatim>\<open>a / b\<close> on finite numbers (the zero of the model is the positive zero).\<close>

definition js_div :: "real \<Rightarrow> real \<Rightarrow> jsnum" where
  "js_div a b =
     (if b = 0 then (if a = 0 then NaN else if 0 < a then PosInfinity else NegInfinity)
      else Num (a / b))"

text \<open>\<^verbatim>\<open>x * c\<close> for a finite, positive literal \<open>c\<close>.\<close>

definition js_scale :: "jsnum \<Rightarrow> real \<Rightarrow> jsnum" where
  "js_scale x c = (case x of Num r \<Rightarrow> Num (r * c) | other \<Rightarrow> other)"

definition is_finite :: "jsnum \<Rightarrow> bool" where
  "is_finite x = (case x of Num r \<Rightarrow> True | other \<Rightarrow> False)"

section \<open>Template literals\<close>

text \<open>
  A template literal is kept as the list of its pieces: \<open>Text\<close> for literal text and
  interpolated strings, \<open>Fixed k x\<close> for \<^verbatim>\<open>x.toFixed(k)\<close>, and \<open>Shown x\<close> for a
  number interpolated with the default conversion.
\<close>

datatype fragment = Text string | Fixed nat real | Shown real

type_synonym message = "fragment list"

section \<open>Data model (types.ts)\<close>

text \<open>
  One record for each interface. A field name that a second interface uses again is
  prefixed there (\<open>summaryActiveCookbooks\<close>, \<open>summaryHealthScore\<close>,
  \<open>reportHealthMetrics\<close>, and \<open>perNodeCost_of\<close> in the table of alternatives).
\<close>

record InfrastructureData =
  totalManagedNodes :: real
  productionNodes :: real
  stagingNodes :: real
  developmentNodes :: real
  chefServerCount :: real
  monthlyServerCost :: real
  chefRunIntervalMinutes :: real

record CookbookData =
  totalCookbooks :: real
  uniqueCookbookNames :: real
  activeCookbooks :: real
  tier1Simple :: real
  tier2Standard :: real
  tier3Complex :: real
  avgCookbooksPerNode :: real

record TeamData =
  dedicatedEngineers :: real
  partTimeContributors :: real
  partTimeAllocationPct :: real
  averageSalary :: real
  benefitsMultiplier :: real

record IncidentData =
  monthlyIncidents :: real
  averageMttrHours :: real
  engineersPerIncident :: real

record LicensingData =
  annualLicenseCost :: real
  negotiatedRatePerNode :: real
  annualTrainingBudget :: real
  monthlyCicdCost :: real
  annualContractorSpend :: real

record OrganizationData =
  infrastructure :: InfrastructureData
  cookbooks :: CookbookData
  team :: TeamData
  incidents :: IncidentData
  licensing :: LicensingData

record TCOBreakdown =
  licensingCost :: real
  infrastructureCost :: real
  platformLaborCost :: real
  distributedLaborCost :: real
  incidentCost :: real
  technicalDebtTax :: real
  trainingCost :: real
  contractorCost :: real
  opportunityCost :: real
  directCosts :: real
  laborCosts :: real
  totalAnnualTco :: real

datatype health = Healthy | Warning | Critical

record HealthMetrics =
  cookbookRatio :: real
  cookbooksPerFte :: real
  debtMultiplier :: real
  healthScore :: health
  issues :: "message list"

datatype platform = Ansible | Kubernetes | Terraform | Puppet

datatype risk = Low | Medium | High

record ScenarioResult =
  name :: string
  platform :: platform
  migrationCost :: real
  year1Cost :: real
  year2Cost :: real
  year3Cost :: real
  threeYearTotal :: real
  breakEvenMonths :: "real option"
  npv3Year :: real
  riskScore :: risk
  annualSavings :: real
  savingsPercent :: jsnum

record Summary =
  totalNodes :: real
  summaryActiveCookbooks :: real
  annualTco :: real
  perNodeCost :: real
  perCookbookCost :: real
  summaryHealthScore :: health

record PerUnitCosts =
  perNode :: real
  perCookbook :: real
  perFte :: real

record AnalysisReport =
  summary :: Summary
  reportHealthMetrics :: HealthMetrics
  costBreakdown :: TCOBreakdown
  perUnitCosts :: PerUnitCosts
  scenarios :: "ScenarioResult list"
  recommendations :: "message list"

section \<open>Benchmarks and constants\<close>

record thresholds =
  healthy :: real
  warning :: real
  critical :: real

definition cookbookRatioThresholds :: thresholds where
  "cookbookRatioThresholds = \<lparr>healthy = 25, warning = 100, critical = 500\<rparr>"

definition cookbooksPerFteThresholds :: thresholds where
  "cookbooksPerFteThresholds = \<lparr>healthy = 150, warning = 75, critical = 50\<rparr>"

definition runListSizeThresholds :: thresholds where
  "runListSizeThresholds = \<lparr>healthy = 15, warning = 30, critical = 50\<rparr>"

text \<open>An upper bound of the debt table: a number, or \<^verbatim>\<open>Infinity\<close>.\<close>

datatype bound = Upto real | Unbounded

fun atMostBound :: "real \<Rightarrow> bound \<Rightarrow> bool" where
  "atMostBound r (Upto t) = (r \<le> t)"
| "atMostBound r Unbounded = True"

definition debtMultipliers :: "(bound \<times> real) list" where
  "debtMultipliers =
     [(Upto 25, 1.0), (Upto 50, 1.1), (Upto 100, 1.25), (Upto 250, 1.5), (Upto 500, 2.0),
      (Unbounded, 2.5)]"

definition tier1Hours :: real where "tier1Hours = 4"
definition tier2Hours :: real where "tier2Hours = 16"
definition tier3Hours :: real where "tier3Hours = 40"
definition learningCurveMonths :: real where "learningCurveMonths = 6"
definition learningCurvePenalty :: real where "learningCurvePenalty = 0.2"

record alternative =
  perNodeCost_of :: real
  migrationFactor :: real
  label :: string

fun alternatives :: "platform \<Rightarrow> alternative" where
  "alternatives Ansible = \<lparr>perNodeCost_of = 75, migrationFactor = 1.0, label = ''Ansible''\<rparr>"
| "alternatives Kubernetes =
     \<lparr>perNodeCost_of = 30, migrationFactor = 1.8, label = ''Kubernetes/GitOps''\<rparr>"
| "alternatives Terraform = \<lparr>perNodeCost_of = 20, migrationFactor = 1.2, label = ''Terraform''\<rparr>"
| "alternatives Puppet = \<lparr>perNodeCost_of = 125, migrationFactor = 0.7, label = ''Puppet''\<rparr>"

text \<open>\<^verbatim>\<open>Object.keys(BENCHMARKS.alternatives)\<close>: the keys in insertion order.\<close>

definition alternativeKeys :: "platform list" where
  "alternativeKeys = [Ansible, Kubernetes, Terraform, Puppet]"

section \<open>Health metrics\<close>

text \<open>The \<^verbatim>\<open>for ... of\<close> loop of \<^verbatim>\<open>getDebtMultiplier\<close> over a table, with its fall-through.\<close>

fun scanMultipliers :: "(bound \<times> real) list \<Rightarrow> real \<Rightarrow> real" where
  "scanMultipliers [] ratio = 2.5"
| "scanMultipliers ((threshold, multiplier) # rest) ratio =
     (if atMostBound ratio threshold then multiplier else scanMultipliers rest ratio)"

definition getDebtMultiplier :: "real \<Rightarrow> real" where
  "getDebtMultiplier ratio = scanMultipliers debtMultipliers ratio"

text \<open>\<^verbatim>\<open>totalFte\<close> of \<^verbatim>\<open>calculateHealthMetrics\<close>.\<close>

definition totalFte :: "OrganizationData \<Rightarrow> real" where
  "totalFte d =
     dedicatedEngineers (team d) +
     partTimeContributors (team d) * (partTimeAllocationPct (team d) / 100)"

text \<open>
  The first part of \<^verbatim>\<open>calculateHealthMetrics\<close> (lines 49 to 73): the initial
  \<^verbatim>\<open>metrics\<close> object with the two ratios and the debt multiplier filled in.
\<close>

definition measureRatios :: "OrganizationData \<Rightarrow> HealthMetrics" where
  "measureRatios d =
     (let ratio =
            (if totalManagedNodes (infrastructure d) > 0
             then (activeCookbooks (cookbooks d) / totalManagedNodes (infrastructure d)) * 1000
             else 0);
          fteRatio =
            (if totalFte d > 0 then activeCookbooks (cookbooks d) / totalFte d else 0)
      in \<lparr>cookbookRatio = ratio, cookbooksPerFte = fteRatio,
          debtMultiplier = getDebtMultiplier ratio, healthScore = Healthy, issues = []\<rparr>)"

text \<open>The first \<^verbatim>\<open>if\<close> of the health score (lines 78 to 88), as an update of \<^verbatim>\<open>metrics\<close>.\<close>

definition assessCookbookRatio :: "HealthMetrics \<Rightarrow> HealthMetrics" where
  "assessCookbookRatio m =
     (if cookbookRatio m > critical cookbookRatioThresholds then
        m\<lparr>healthScore := Critical,
          issues := issues m @
            [[Text ''Cookbook ratio ('', Fixed 1 (cookbookRatio m),
              Text ''/1K nodes) is critical. Target: <'',
              Shown (healthy cookbookRatioThresholds)]]\<rparr>
      else if cookbookRatio m > healthy cookbookRatioThresholds then
        m\<lparr>healthScore := Warning,
          issues := issues m @
            [[Text ''Cookbook ratio ('', Fixed 1 (cookbookRatio m),
              Text ''/1K nodes) exceeds healthy threshold. Target: <'',
              Shown (healthy cookbookRatioThresholds)]]\<rparr>
      else m)"

text \<open>The second \<^verbatim>\<open>if\<close> (lines 90 to 101), as an update of \<^verbatim>\<open>metrics\<close>.\<close>

definition understaffingIssue :: "real \<Rightarrow> message" where
  "understaffingIssue x =
     [Text ''FTE efficiency ('', Fixed 0 x, Text '' cookbooks/FTE) may indicate understaffing'']"

definition lowEfficiencyIssue :: "real \<Rightarrow> message" where
  "lowEfficiencyIssue x =
     [Text ''Low FTE efficiency ('', Fixed 0 x, Text '' cookbooks/FTE) suggests complexity'']"

definition assessFteEfficiency :: "HealthMetrics \<Rightarrow> HealthMetrics" where
  "assessFteEfficiency m =
     (if cookbooksPerFte m > 300 then
        m\<lparr>issues := issues m @ [understaffingIssue (cookbooksPerFte m)]\<rparr>
      else if cookbooksPerFte m < critical cookbooksPerFteThresholds then
        (let m' = (if healthScore m = Healthy then m\<lparr>healthScore := Warning\<rparr> else m)
         in m'\<lparr>issues := issues m' @ [lowEfficiencyIssue (cookbooksPerFte m')]\<rparr>)
      else m)"

definition calculateHealthMetrics :: "OrganizationData \<Rightarrow> HealthMetrics" where
  "calculateHealthMetrics d = assessFteEfficiency (assessCookbookRatio (measureRatios d))"

section \<open>Cost breakdown\<close>

definition calculateTCO :: "OrganizationData \<Rightarrow> HealthMetrics \<Rightarrow> TCOBreakdown" where
  "calculateTCO d healthMetrics =
     (let fullyLoadedSalary = averageSalary (team d) * benefitsMultiplier (team d);
          licensingCost = annualLicenseCost (licensing d);
          infrastructureCost =
            chefServerCount (infrastructure d) * monthlyServerCost (infrastructure d) * 12 +
            monthlyCicdCost (licensing d) * 12;
          platformLaborCost = dedicatedEngineers (team d) * fullyLoadedSalary;
          distributedLaborCost =
            partTimeContributors (team d) * (partTimeAllocationPct (team d) / 100) *
            fullyLoadedSalary;
          hourlyRate = fullyLoadedSalary / 2080;
          incidentCost =
            monthlyIncidents (incidents d) * 12 * averageMttrHours (incidents d) *
            engineersPerIncident (incidents d) * hourlyRate;
          baseLaborCost = platformLaborCost + distributedLaborCost;
          technicalDebtTax = baseLaborCost * (debtMultiplier healthMetrics - 1);
          trainingCost = annualTrainingBudget (licensing d);
          contractorCost = annualContractorSpend (licensing d);
          directCosts = licensingCost + infrastructureCost;
          laborCosts = platformLaborCost + distributedLaborCost + incidentCost;
          opportunityCost = laborCosts * 0.15;
          totalAnnualTco =
            licensingCost + infrastructureCost + platformLaborCost + distributedLaborCost +
            incidentCost + technicalDebtTax + trainingCost + contractorCost + opportunityCost
      in \<lparr>licensingCost = licensingCost, infrastructureCost = infrastructureCost,
          platformLaborCost = platformLaborCost, distributedLaborCost = distributedLaborCost,
          incidentCost = incidentCost, technicalDebtTax = technicalDebtTax,
          trainingCost = trainingCost, contractorCost = contractorCost,
          opportunityCost = opportunityCost, directCosts = directCosts,
          laborCosts = laborCosts, totalAnnualTco = totalAnnualTco\<rparr>)"

section \<open>Migration scenarios\<close>

definition calculateMigrationCost :: "OrganizationData \<Rightarrow> platform \<Rightarrow> real" where
  "calculateMigrationCost d p =
     (let platformConfig = alternatives p;
          tierHours =
            tier1Simple (cookbooks d) * tier1Hours + tier2Standard (cookbooks d) * tier2Hours +
            tier3Complex (cookbooks d) * tier3Hours;
          totalHours = tierHours * migrationFactor platformConfig;
          hourlyRate = (averageSalary (team d) * benefitsMultiplier (team d)) / 2080;
          laborCost = totalHours * hourlyRate;
          trainingCost = dedicatedEngineers (team d) * 80 * hourlyRate;
          learningCost =
            dedicatedEngineers (team d) *
            ((averageSalary (team d) * benefitsMultiplier (team d)) / 2) * learningCurvePenalty;
          toolingCost = laborCost * 0.1
      in laborCost + trainingCost + learningCost + toolingCost)"

text \<open>
  The fourth parameter of \<^verbatim>\<open>calculateScenario\<close> is optional: \<open>None\<close> is the call that
  leaves it out, and the default \<open>0.1\<close> applies. The three divisions of the net present
  value have the denominators \<open>(1 + discountRate) ^ i\<close>, which are not zero unless a caller
  passes \<open>-1\<close>; the report generator passes nothing.
\<close>

definition calculateScenario ::
  "OrganizationData \<Rightarrow> TCOBreakdown \<Rightarrow> platform \<Rightarrow> real option \<Rightarrow> ScenarioResult" where
  "calculateScenario d tco p rate =
     (let discountRate = (case rate of None \<Rightarrow> 0.1 | Some r \<Rightarrow> r);
          currentTco = totalAnnualTco tco;
          migrationCost = calculateMigrationCost d p;
          platformConfig = alternatives p;
          newLicenseCost = totalManagedNodes (infrastructure d) * perNodeCost_of platformConfig;
          laborReduction = 0.3;
          newLaborCost = laborCosts tco * (1 - laborReduction);
          newInfraCost = infrastructureCost tco * 0.7;
          year1Cost =
            migrationCost + newLicenseCost * 0.5 + licensingCost tco * 0.5 +
            laborCosts tco * 1.2 + newInfraCost;
          year2Cost = newLicenseCost + newLaborCost * 1.1 + newInfraCost + trainingCost tco * 0.5;
          year3Cost = newLicenseCost + newLaborCost + newInfraCost * 0.9;
          threeYearTotal = year1Cost + year2Cost + year3Cost;
          annualSavings = currentTco - year3Cost;
          breakEvenMonths =
            (if annualSavings > 0 then Some ((migrationCost / annualSavings) * 12) else None);
          savingsY1 = (currentTco - year1Cost) / (1 + discountRate);
          savingsY2 = (currentTco - year2Cost) / (1 + discountRate) ^ 2;
          savingsY3 = (currentTco - year3Cost) / (1 + discountRate) ^ 3;
          npv3Year = savingsY1 + savingsY2 + savingsY3;
          riskScore = (if p = Kubernetes then High else if p = Puppet then Low else Medium);
          current3Year = currentTco * 3;
          savingsPercent = js_scale (js_div (current3Year - threeYearTotal) current3Year) 100
      in \<lparr>name = ''Migration to '' @ label platformConfig, platform = p,
          migrationCost = migrationCost, year1Cost = year1Cost, year2Cost = year2Cost,
          year3Cost = year3Cost, threeYearTotal = threeYearTotal,
          breakEvenMonths = breakEvenMonths, npv3Year = npv3Year, riskScore = riskScore,
          annualSavings = annualSavings, savingsPercent = savingsPercent\<rparr>)"

section \<open>Report\<close>

text \<open>
  \<^verbatim>\<open>Array.prototype.sort\<close> with a comparator: a stable sort. An element is placed
  after every element that the comparator does not put behind it.
\<close>

fun insertSorted :: "('a \<Rightarrow> 'a \<Rightarrow> real) \<Rightarrow> 'a \<Rightarrow> 'a list \<Rightarrow> 'a list" where
  "insertSorted cmp x [] = [x]"
| "insertSorted cmp x (y # ys) =
     (if cmp y x \<le> 0 then y # insertSorted cmp x ys else x # y # ys)"

definition js_sort :: "('a \<Rightarrow> 'a \<Rightarrow> real) \<Rightarrow> 'a list \<Rightarrow> 'a list" where
  "js_sort cmp xs = foldl (\<lambda>acc x. insertSorted cmp x acc) [] xs"

text \<open>The comparator \<^verbatim>\<open>(a, b) => b.npv3Year - a.npv3Year\<close>.\<close>

definition byNpvDescending :: "ScenarioResult \<Rightarrow> ScenarioResult \<Rightarrow> real" where
  "byNpvDescending a b = npv3Year b - npv3Year a"

text \<open>
  The recommendation part of \<^verbatim>\<open>generateAnalysisReport\<close> (lines 282 to 307): four
  independent checks, each appending at most one string. \<^verbatim>\<open>scenarios[0]\<close> is the head
  of the sorted list, and undefined for an empty one.
\<close>

definition recommend ::
  "OrganizationData \<Rightarrow> HealthMetrics \<Rightarrow> TCOBreakdown \<Rightarrow> ScenarioResult list \<Rightarrow> message list" where
  "recommend d healthMetrics breakdown sorted_scenarios =
     (if cookbookRatio healthMetrics > 100 then
        [[Text ''CRITICAL: Consolidate cookbooks. Current ratio of '',
          Fixed 0 (cookbookRatio healthMetrics),
          Text ''/1K nodes is unsustainable. Target: <25/1K nodes.'']]
      else []) @
     (if debtMultiplier healthMetrics \<ge> 1.5 then
        [[Text ''Technical debt is costing $'', Fixed 1 (technicalDebtTax breakdown / 1000000),
          Text ''M/year. Invest in cookbook consolidation.'']]
      else []) @
     (case sorted_scenarios of
        [] \<Rightarrow> []
      | bestScenario # others \<Rightarrow>
          if npv3Year bestScenario > 0 then
            [[Text ''Consider '', Text (name bestScenario), Text ''. 3-year NPV: $'',
              Fixed 1 (npv3Year bestScenario / 1000000), Text ''M. Breakeven: '',
              (case breakEvenMonths bestScenario of
                 None \<Rightarrow> Text ''N/A'' | Some months \<Rightarrow> Fixed 0 months),
              Text '' months.'']]
          else []) @
     (if monthlyIncidents (incidents d) > 20 then
        [[Text ''High incident rate ('', Shown (monthlyIncidents (incidents d)),
          Text ''/month) suggests stability issues. Prioritize reliability improvements.'']]
      else [])"

definition generateAnalysisReport :: "OrganizationData \<Rightarrow> AnalysisReport" where
  "generateAnalysisReport d =
     (let healthMetrics = calculateHealthMetrics d;
          breakdown = calculateTCO d healthMetrics;
          unitCosts =
            \<lparr>perNode = totalAnnualTco breakdown / max 1 (totalManagedNodes (infrastructure d)),
             perCookbook = totalAnnualTco breakdown / max 1 (activeCookbooks (cookbooks d)),
             perFte = totalAnnualTco breakdown / max 1 (dedicatedEngineers (team d))\<rparr>;
          unsorted = map (\<lambda>p. calculateScenario d breakdown p None) alternativeKeys;
          sorted_scenarios = js_sort byNpvDescending unsorted
      in \<lparr>summary =
            \<lparr>totalNodes = totalManagedNodes (infrastructure d),
             summaryActiveCookbooks = activeCookbooks (cookbooks d),
             annualTco = totalAnnualTco breakdown,
             perNodeCost = perNode unitCosts,
             perCookbookCost = perCookbook unitCosts,
             summaryHealthScore = healthScore healthMetrics\<rparr>,
          reportHealthMetrics = healthMetrics,
          costBreakdown = breakdown,
          perUnitCosts = unitCosts,
          scenarios = sorted_scenarios,
          recommendations = recommend d healthMetrics breakdown sorted_scenarios\<rparr>)"

section \<open>Sample data (data/sampleData.ts)\<close>

definition sampleData :: OrganizationData where
  "sampleData =
     \<lparr>infrastructure =
        \<lparr>totalManagedNodes = 200000, productionNodes = 150000, stagingNodes = 30000,
         developmentNodes = 20000, chefServerCount = 12, monthlyServerCost = 4000,
         chefRunIntervalMinutes = 30\<rparr>,
      cookbooks =
        \<lparr>totalCookbooks = 90000, uniqueCookbookNames = 15000, activeCookbooks = 12000,
         tier1Simple = 7200, tier2Standard = 3600, tier3Complex = 1200,
         avgCookbooksPerNode = 8\<rparr>,
      team =
        \<lparr>dedicatedEngineers = 45, partTimeContributors = 120, partTimeAllocationPct = 20,
         averageSalary = 165000, benefitsMultiplier = 1.4\<rparr>,
      incidents =
        \<lparr>monthlyIncidents = 25, averageMttrHours = 6, engineersPerIncident = 2.5\<rparr>,
      licensing =
        \<lparr>annualLicenseCost = 11000000, negotiatedRatePerNode = 55,
         annualTrainingBudget = 150000, monthlyCicdCost = 15000,
         annualContractorSpend = 500000\<rparr>\<rparr>"

section \<open>Snapshots used as concrete inputs\<close>

definition zeroData :: OrganizationData where
  "zeroData =
     \<lparr>infrastructure =
        \<lparr>totalManagedNodes = 0, productionNodes = 0, stagingNodes = 0,
         developmentNodes = 0, chefServerCount = 0, monthlyServerCost = 0,
         chefRunIntervalMinutes = 0\<rparr>,
      cookbooks =
        \<lparr>totalCookbooks = 0, uniqueCookbookNames = 0, activeCookbooks = 0,
         tier1Simple = 0, tier2Standard = 0, tier3Complex = 0, avgCookbooksPerNode = 0\<rparr>,
      team =
        \<lparr>dedicatedEngineers = 0, partTimeContributors = 0, partTimeAllocationPct = 0,
         averageSalary = 0, benefitsMultiplier = 0\<rparr>,
      incidents = \<lparr>monthlyIncidents = 0, averageMttrHours = 0, engineersPerIncident = 0\<rparr>,
      licensing =
        \<lparr>annualLicenseCost = 0, negotiatedRatePerNode = 0, annualTrainingBudget = 0,
         monthlyCicdCost = 0, annualContractorSpend = 0\<rparr>\<rparr>"

text \<open>A snapshot with the given node, active cookbook and dedicated engineer counts, all else zero.\<close>

definition estate :: "real \<Rightarrow> real \<Rightarrow> real \<Rightarrow> OrganizationData" where
  "estate nodes active engineers =
     zeroData\<lparr>infrastructure := (infrastructure zeroData)\<lparr>totalManagedNodes := nodes\<rparr>,
              cookbooks := (cookbooks zeroData)\<lparr>activeCookbooks := active\<rparr>,
              team := (team zeroData)\<lparr>dedicatedEngineers := engineers\<rparr>\<rparr>"

text \<open>A snapshot that pays a licence of 1000 a year and has nothing else.\<close>

definition licenseOnly :: OrganizationData where
  "licenseOnly = zeroData\<lparr>licensing := (licensing zeroData)\<lparr>annualLicenseCost := 1000\<rparr>\<rparr>"

text \<open>The sixteen fields that the end-to-end scenario of the specification fixes.\<close>

definition referenceSnapshot :: "OrganizationData \<Rightarrow> bool" where
  "referenceSnapshot d \<longleftrightarrow>
     totalManagedNodes (infrastructure d) = 200000 \<and> activeCookbooks (cookbooks d) = 12000 \<and>
     dedicatedEngineers (team d) = 45 \<and> partTimeContributors (team d) = 120 \<and>
     partTimeAllocationPct (team d) = 20 \<and> averageSalary (team d) = 165000 \<and>
     benefitsMultiplier (team d) = 1.4 \<and> monthlyIncidents (incidents d) = 25 \<and>
     averageMttrHours (incidents d) = 6 \<and> engineersPerIncident (incidents d) = 2.5 \<and>
     annualLicenseCost (licensing d) = 11000000 \<and> chefServerCount (infrastructure d) = 12 \<and>
     monthlyServerCost (infrastructure d) = 4000 \<and> monthlyCicdCost (licensing d) = 15000 \<and>
     annualTrainingBudget (licensing d) = 150000 \<and> annualContractorSpend (licensing d) = 500000"

section \<open>Unfolding the engine\<close>

lemmas health_defs = calculateHealthMetrics_def measureRatios_def assessCookbookRatio_def
  assessFteEfficiency_def totalFte_def getDebtMultiplier_def debtMultipliers_def
  cookbookRatioThresholds_def cookbooksPerFteThresholds_def Let_def

lemmas engine_defs = health_defs calculateTCO_def calculateScenario_def
  calculateMigrationCost_def generateAnalysisReport_def js_sort_def byNpvDescending_def
  alternativeKeys_def js_div_def js_scale_def tier1Hours_def tier2Hours_def tier3Hours_def
  learningCurvePenalty_def

lemmas snapshot_defs = zeroData_def estate_def licenseOnly_def sampleData_def

section \<open>The debt multiplier\<close>

lemma scan_first_match:
  "scanMultipliers tbl r =
     (case find (\<lambda>(b, m). atMostBound r b) tbl of None \<Rightarrow> 2.5 | Some (b, m) \<Rightarrow> m)"
  by (induction tbl r rule: scanMultipliers.induct) auto

text \<open>
  Claim C5. The debt multiplier is the six-tier step function of the cookbook ratio:
  at most 25 gives 1.00, at most 50 gives 1.10, at most 100 gives 1.25, at most 250 gives
  1.50, at most 500 gives 2.00, anything larger gives 2.50. It is the multiplier of the
  first entry of the table whose upper bound the ratio does not exceed, and the table lists
  its upper bounds in ascending order, the unbounded one last. This holds for every ratio,
  the non-negative ones in particular.
\<close>

theorem debt_multiplier_six_tiers:
  "getDebtMultiplier r =
     (if r \<le> 25 then 1 else if r \<le> 50 then 1.1 else if r \<le> 100 then 1.25
      else if r \<le> 250 then 1.5 else if r \<le> 500 then 2 else 2.5) \<and>
   getDebtMultiplier r =
     (case find (\<lambda>(b, m). atMostBound r b) debtMultipliers of
        None \<Rightarrow> 2.5 | Some (b, m) \<Rightarrow> m) \<and>
   map fst debtMultipliers = [Upto 25, Upto 50, Upto 100, Upto 250, Upto 500, Unbounded]"
proof -
  have "getDebtMultiplier r =
     (if r \<le> 25 then 1 else if r \<le> 50 then 1.1 else if r \<le> 100 then 1.25
      else if r \<le> 250 then 1.5 else if r \<le> 500 then 2 else 2.5)"
    by (simp add: getDebtMultiplier_def debtMultipliers_def)
  moreover have "getDebtMultiplier r =
     (case find (\<lambda>(b, m). atMostBound r b) debtMultipliers of
        None \<Rightarrow> 2.5 | Some (b, m) \<Rightarrow> m)"
    unfolding getDebtMultiplier_def by (rule scan_first_match)
  moreover have
    "map fst debtMultipliers = [Upto 25, Upto 50, Upto 100, Upto 250, Upto 500, Unbounded]"
    by (simp add: debtMultipliers_def)
  ultimately show ?thesis by blast
qed

section \<open>The health score\<close>

lemma score_after_ratio:
  "healthScore (assessCookbookRatio m) =
     (if cookbookRatio m > 500 then Critical else if cookbookRatio m > 25 then Warning
      else healthScore m)"
  by (simp add: assessCookbookRatio_def cookbookRatioThresholds_def)

lemma score_after_fte:
  "healthScore (assessFteEfficiency m) =
     (if cookbooksPerFte m < 50 \<and> healthScore m = Healthy then Warning else healthScore m)"
  by (simp add: assessFteEfficiency_def cookbooksPerFteThresholds_def Let_def)

lemma ratios_kept:
  "cookbookRatio (assessCookbookRatio m) = cookbookRatio m"
  "cookbooksPerFte (assessCookbookRatio m) = cookbooksPerFte m"
  "cookbookRatio (assessFteEfficiency m) = cookbookRatio m"
  "cookbooksPerFte (assessFteEfficiency m) = cookbooksPerFte m"
  by (simp_all add: assessCookbookRatio_def assessFteEfficiency_def Let_def)

lemma initial_score: "healthScore (measureRatios d) = Healthy"
  by (simp add: measureRatios_def Let_def)

lemma critical_is_kept:
  "healthScore m = Critical \<Longrightarrow> healthScore (assessFteEfficiency m) = Critical"
  by (simp add: score_after_fte)

text \<open>
  Claim C1. The rule of the claim makes the score critical whenever the cookbook ratio
  exceeds 100 and at least a warning whenever the cookbooks per FTE fall below 150.
  \<open>calculateHealthMetrics\<close> compares the ratio with 500 and the cookbooks per FTE with
  50 instead. With 200 active cookbooks on 1000 nodes and two engineers the ratio is 200
  and the score is only a warning, in the metrics and in the summary of the report, while
  the first recommendation of the same report is the one that starts with CRITICAL. With
  100 active cookbooks on 10000 nodes and one engineer the ratio is 10, the cookbooks per
  FTE are 100, and the score stays healthy with no issue recorded.
\<close>

theorem health_score_below_documented_bands:
  "cookbookRatio (calculateHealthMetrics (estate 1000 200 2)) = 200 \<and>
   healthScore (calculateHealthMetrics (estate 1000 200 2)) = Warning \<and>
   summaryHealthScore (summary (generateAnalysisReport (estate 1000 200 2))) = Warning \<and>
   take 1 (recommendations (generateAnalysisReport (estate 1000 200 2))) =
     [[Text ''CRITICAL: Consolidate cookbooks. Current ratio of '', Fixed 0 200,
       Text ''/1K nodes is unsustainable. Target: <25/1K nodes.'']] \<and>
   cookbookRatio (calculateHealthMetrics (estate 10000 100 1)) = 10 \<and>
   cookbooksPerFte (calculateHealthMetrics (estate 10000 100 1)) = 100 \<and>
   healthScore (calculateHealthMetrics (estate 10000 100 1)) = Healthy \<and>
   issues (calculateHealthMetrics (estate 10000 100 1)) = []"
proof -
  have a: "cookbookRatio (calculateHealthMetrics (estate 1000 200 2)) = 200"
    and b: "healthScore (calculateHealthMetrics (estate 1000 200 2)) = Warning"
    and c: "cookbookRatio (calculateHealthMetrics (estate 10000 100 1)) = 10"
    and d: "cookbooksPerFte (calculateHealthMetrics (estate 10000 100 1)) = 100"
    and e: "healthScore (calculateHealthMetrics (estate 10000 100 1)) = Healthy"
    and f: "issues (calculateHealthMetrics (estate 10000 100 1)) = []"
    by (simp_all add: health_defs estate_def zeroData_def)
  have g: "summaryHealthScore (summary (generateAnalysisReport (estate 1000 200 2))) =
             healthScore (calculateHealthMetrics (estate 1000 200 2))"
    by (simp add: generateAnalysisReport_def Let_def)
  have h: "take 1 (recommendations (generateAnalysisReport (estate 1000 200 2))) =
     [[Text ''CRITICAL: Consolidate cookbooks. Current ratio of '', Fixed 0 200,
       Text ''/1K nodes is unsustainable. Target: <25/1K nodes.'']]"
    by (simp add: generateAnalysisReport_def Let_def recommend_def a)
  from a b c d e f g h show ?thesis by simp
qed

lemma issues_after_fte:
  "cookbooksPerFte m > 300 \<Longrightarrow>
     issues (assessFteEfficiency m) = issues m @ [understaffingIssue (cookbooksPerFte m)]"
  by (simp add: assessFteEfficiency_def)

text \<open>
  Claim C10. When the cookbooks per FTE exceed 300, \<open>calculateHealthMetrics\<close> appends the
  understaffing issue to the issues that the ratio check left and returns the score that
  the ratio check left: a high value alone never raises the score, so with a ratio of at
  most 25 the score is healthy. The low-efficiency branch turns the score into a warning
  only when the ratio check left it healthy; in every other case the score of the ratio
  check is returned as it is.
\<close>

theorem understaffing_keeps_score:
  "(cookbooksPerFte (calculateHealthMetrics d) > 300 \<longrightarrow>
      issues (calculateHealthMetrics d) =
        issues (assessCookbookRatio (measureRatios d)) @
        [understaffingIssue (cookbooksPerFte (calculateHealthMetrics d))] \<and>
      healthScore (calculateHealthMetrics d) = healthScore (assessCookbookRatio (measureRatios d)) \<and>
      (cookbookRatio (calculateHealthMetrics d) \<le> 25 \<longrightarrow>
         healthScore (calculateHealthMetrics d) = Healthy)) \<and>
   healthScore (calculateHealthMetrics d) =
     (if cookbooksPerFte (calculateHealthMetrics d) < 50 \<and>
         \<not> cookbooksPerFte (calculateHealthMetrics d) > 300 \<and>
         healthScore (assessCookbookRatio (measureRatios d)) = Healthy
      then Warning else healthScore (assessCookbookRatio (measureRatios d)))"
  by (simp add: calculateHealthMetrics_def score_after_fte score_after_ratio ratios_kept
      initial_score issues_after_fte)

theorem understaffing_keeps_score_witness:
  "cookbooksPerFte (calculateHealthMetrics (estate 100000 1000 1)) > 300 \<and>
   cookbookRatio (calculateHealthMetrics (estate 100000 1000 1)) \<le> 25 \<and>
   issues (calculateHealthMetrics (estate 100000 1000 1)) = [understaffingIssue 1000] \<and>
   healthScore (calculateHealthMetrics (estate 100000 1000 1)) = Healthy"
proof -
  let ?d = "estate 100000 1000 1"
  have c: "cookbooksPerFte (calculateHealthMetrics ?d) = 1000"
    and r: "cookbookRatio (calculateHealthMetrics ?d) = 10"
    and i: "issues (assessCookbookRatio (measureRatios ?d)) = []"
    and s: "healthScore (assessCookbookRatio (measureRatios ?d)) = Healthy"
    by (simp_all add: health_defs snapshot_defs)
  from c have h: "cookbooksPerFte (calculateHealthMetrics ?d) > 300" by simp
  from r have h2: "cookbookRatio (calculateHealthMetrics ?d) \<le> 25" by simp
  from understaffing_keeps_score [of ?d] h h2 c i s show ?thesis by simp
qed

section \<open>The cost breakdown\<close>

text \<open>
  Claim C4. The total annual TCO returned by \<open>calculateTCO\<close> is the sum of the nine
  component fields of the same result: licensing, infrastructure, platform labor,
  distributed labor, incident, technical debt tax, training, contractor and opportunity
  cost, and nothing else.
\<close>

theorem total_is_sum_of_nine:
  "totalAnnualTco (calculateTCO d h) =
     licensingCost (calculateTCO d h) + infrastructureCost (calculateTCO d h) +
     platformLaborCost (calculateTCO d h) + distributedLaborCost (calculateTCO d h) +
     incidentCost (calculateTCO d h) + technicalDebtTax (calculateTCO d h) +
     trainingCost (calculateTCO d h) + contractorCost (calculateTCO d h) +
     opportunityCost (calculateTCO d h)"
  by (simp add: calculateTCO_def Let_def)

section \<open>The reference snapshot\<close>

lemma reference_fields:
  assumes "referenceSnapshot d"
  shows "totalManagedNodes (infrastructure d) = 200000" "activeCookbooks (cookbooks d) = 12000"
    "dedicatedEngineers (team d) = 45" "partTimeContributors (team d) = 120"
    "partTimeAllocationPct (team d) = 20" "averageSalary (team d) = 165000"
    "benefitsMultiplier (team d) = 1.4" "monthlyIncidents (incidents d) = 25"
    "averageMttrHours (incidents d) = 6" "engineersPerIncident (incidents d) = 2.5"
    "annualLicenseCost (licensing d) = 11000000" "chefServerCount (infrastructure d) = 12"
    "monthlyServerCost (infrastructure d) = 4000" "monthlyCicdCost (licensing d) = 15000"
    "annualTrainingBudget (licensing d) = 150000" "annualContractorSpend (licensing d) = 500000"
  using assms unfolding referenceSnapshot_def by blast+

lemma reference_ratio:
  assumes "referenceSnapshot d"
  shows "cookbookRatio (calculateHealthMetrics d) = 60"
    and "debtMultiplier (calculateHealthMetrics d) = 1.25"
  by (simp_all add: reference_fields[OF assms] health_defs)

lemma reference_tco:
  assumes "referenceSnapshot d"
  shows "totalAnnualTco (calculateTCO d (calculateHealthMetrics d)) = 1835356825 / 52"
  by (simp add: reference_fields[OF assms] reference_ratio[OF assms] calculateTCO_def Let_def)

lemma report_fields:
  "costBreakdown (generateAnalysisReport d) = calculateTCO d (calculateHealthMetrics d)"
  "annualTco (summary (generateAnalysisReport d)) =
     totalAnnualTco (calculateTCO d (calculateHealthMetrics d))"
  "perNode (perUnitCosts (generateAnalysisReport d)) =
     totalAnnualTco (calculateTCO d (calculateHealthMetrics d)) /
       max 1 (totalManagedNodes (infrastructure d))"
  "perCookbook (perUnitCosts (generateAnalysisReport d)) =
     totalAnnualTco (calculateTCO d (calculateHealthMetrics d)) /
       max 1 (activeCookbooks (cookbooks d))"
  "perFte (perUnitCosts (generateAnalysisReport d)) =
     totalAnnualTco (calculateTCO d (calculateHealthMetrics d)) /
       max 1 (dedicatedEngineers (team d))"
  "scenarios (generateAnalysisReport d) =
     js_sort byNpvDescending
       (map (\<lambda>p. calculateScenario d (calculateTCO d (calculateHealthMetrics d)) p None)
          alternativeKeys)"
  by (simp_all add: generateAnalysisReport_def Let_def)

lemma sample_is_reference: "referenceSnapshot sampleData"
  by (simp add: referenceSnapshot_def sampleData_def)

text \<open>
  Claim C3, as stated, fails. The sample snapshot of the repository has the sixteen
  reference values; its total annual TCO exceeds 29.4 million by more than 5 million and
  its cost per node exceeds 147 by more than 29.
\<close>

theorem reference_tco_counterexample:
  "referenceSnapshot sampleData \<and>
   5000000 <
     totalAnnualTco (calculateTCO sampleData (calculateHealthMetrics sampleData)) - 29400000 \<and>
   29 < perNode (perUnitCosts (generateAnalysisReport sampleData)) - 147"
proof -
  have t: "totalAnnualTco (calculateTCO sampleData (calculateHealthMetrics sampleData)) =
             1835356825 / 52"
    by (rule reference_tco [OF sample_is_reference])
  have n: "totalManagedNodes (infrastructure sampleData) = 200000"
    by (rule reference_fields(1) [OF sample_is_reference])
  show ?thesis
    by (simp add: sample_is_reference t n report_fields)
qed

text \<open>
  Claim C3, amended. For every snapshot with the sixteen reference values the pipeline
  yields the cookbook ratio 60 per 1000 nodes, the debt multiplier 1.25, and the total
  annual TCO 1835356825 / 52, which is about 35.3 million (between 35.29 and 35.30
  million); the cost per node is 73414273 / 416000, about 176.48.
\<close>

theorem reference_snapshot_outputs:
  assumes "referenceSnapshot d"
  shows "cookbookRatio (calculateHealthMetrics d) = 60 \<and>
         debtMultiplier (calculateHealthMetrics d) = 1.25 \<and>
         totalAnnualTco (calculateTCO d (calculateHealthMetrics d)) = 1835356825 / 52 \<and>
         35290000 < totalAnnualTco (calculateTCO d (calculateHealthMetrics d)) \<and>
         totalAnnualTco (calculateTCO d (calculateHealthMetrics d)) < 35300000 \<and>
         annualTco (summary (generateAnalysisReport d)) = 1835356825 / 52 \<and>
         perNode (perUnitCosts (generateAnalysisReport d)) = 73414273 / 416000 \<and>
         176.47 < perNode (perUnitCosts (generateAnalysisReport d)) \<and>
         perNode (perUnitCosts (generateAnalysisReport d)) < 176.48"
  by (simp add: reference_ratio[OF assms] reference_tco[OF assms] report_fields
      reference_fields(1)[OF assms])

theorem reference_snapshot_outputs_witness:
  "referenceSnapshot sampleData \<and>
   cookbookRatio (calculateHealthMetrics sampleData) = 60 \<and>
   debtMultiplier (calculateHealthMetrics sampleData) = 1.25 \<and>
   totalAnnualTco (calculateTCO sampleData (calculateHealthMetrics sampleData)) =
     1835356825 / 52 \<and>
   perNode (perUnitCosts (generateAnalysisReport sampleData)) = 73414273 / 416000"
  using reference_snapshot_outputs [OF sample_is_reference] sample_is_reference by simp

section \<open>Scenarios\<close>

lemma scenario_fields:
  "migrationCost (calculateScenario d tco p rate) = calculateMigrationCost d p"
  "year1Cost (calculateScenario d tco p rate) =
     calculateMigrationCost d p +
     totalManagedNodes (infrastructure d) * perNodeCost_of (alternatives p) * 0.5 +
     licensingCost tco * 0.5 + laborCosts tco * 1.2 + infrastructureCost tco * 0.7"
  "year2Cost (calculateScenario d tco p rate) =
     totalManagedNodes (infrastructure d) * perNodeCost_of (alternatives p) +
     laborCosts tco * (1 - 0.3) * 1.1 + infrastructureCost tco * 0.7 + trainingCost tco * 0.5"
  "year3Cost (calculateScenario d tco p rate) =
     totalManagedNodes (infrastructure d) * perNodeCost_of (alternatives p) +
     laborCosts tco * (1 - 0.3) + infrastructureCost tco * 0.7 * 0.9"
  "breakEvenMonths (calculateScenario d tco p rate) =
     (if totalAnnualTco tco - year3Cost (calculateScenario d tco p rate) > 0
      then Some ((calculateMigrationCost d p /
                  (totalAnnualTco tco - year3Cost (calculateScenario d tco p rate))) * 12)
      else None)"
  "npv3Year (calculateScenario d tco p None) =
     (totalAnnualTco tco - year1Cost (calculateScenario d tco p None)) / (1 + 0.1) +
     (totalAnnualTco tco - year2Cost (calculateScenario d tco p None)) / (1 + 0.1) ^ 2 +
     (totalAnnualTco tco - year3Cost (calculateScenario d tco p None)) / (1 + 0.1) ^ 3"
  by (simp_all add: calculateScenario_def Let_def)

text \<open>
  Claim C6, as stated, fails. A snapshot that pays only a licence of 1000 a year has a
  year-3 cost of 0 for Ansible, below its TCO of 1000, and nothing to migrate: the
  breakeven is 0 months, which is not positive. The same holds for all four platforms of
  the report.
\<close>

theorem breakeven_positive_counterexample:
  "year3Cost (calculateScenario licenseOnly
       (calculateTCO licenseOnly (calculateHealthMetrics licenseOnly)) Ansible None)
     < totalAnnualTco (calculateTCO licenseOnly (calculateHealthMetrics licenseOnly)) \<and>
   breakEvenMonths (calculateScenario licenseOnly
       (calculateTCO licenseOnly (calculateHealthMetrics licenseOnly)) Ansible None) = Some 0 \<and>
   map breakEvenMonths (scenarios (generateAnalysisReport licenseOnly)) =
     [Some 0, Some 0, Some 0, Some 0]"
  by (simp add: engine_defs snapshot_defs)

text \<open>
  Claim C6, amended. The breakeven is null exactly when the year-3 cost is greater than or
  equal to the current total annual TCO. Otherwise it is the finite number
  (migration cost / (current annual TCO - year-3 cost)) * 12, which is positive exactly
  when the migration cost is positive and zero exactly when the migration cost is zero.
\<close>

theorem breakeven_rule:
  "(breakEvenMonths (calculateScenario d tco p rate) = None \<longleftrightarrow>
      year3Cost (calculateScenario d tco p rate) \<ge> totalAnnualTco tco) \<and>
   (year3Cost (calculateScenario d tco p rate) < totalAnnualTco tco \<longrightarrow>
      breakEvenMonths (calculateScenario d tco p rate) =
        Some ((migrationCost (calculateScenario d tco p rate) /
               (totalAnnualTco tco - year3Cost (calculateScenario d tco p rate))) * 12) \<and>
      (0 < migrationCost (calculateScenario d tco p rate) \<longleftrightarrow>
         0 < (migrationCost (calculateScenario d tco p rate) /
               (totalAnnualTco tco - year3Cost (calculateScenario d tco p rate))) * 12) \<and>
      (migrationCost (calculateScenario d tco p rate) = 0 \<longleftrightarrow>
         breakEvenMonths (calculateScenario d tco p rate) = Some 0))"
proof -
  let ?s = "calculateScenario d tco p rate"
  have b: "breakEvenMonths ?s =
     (if totalAnnualTco tco - year3Cost ?s > 0
      then Some ((migrationCost ?s / (totalAnnualTco tco - year3Cost ?s)) * 12) else None)"
    by (simp only: scenario_fields(5) scenario_fields(1))
  have 1: "breakEvenMonths ?s = None \<longleftrightarrow> year3Cost ?s \<ge> totalAnnualTco tco"
    unfolding b by auto
  have 2: "year3Cost ?s < totalAnnualTco tco \<longrightarrow>
      breakEvenMonths ?s = Some ((migrationCost ?s / (totalAnnualTco tco - year3Cost ?s)) * 12) \<and>
      (0 < migrationCost ?s \<longleftrightarrow>
         0 < (migrationCost ?s / (totalAnnualTco tco - year3Cost ?s)) * 12) \<and>
      (migrationCost ?s = 0 \<longleftrightarrow> breakEvenMonths ?s = Some 0)"
    unfolding b by (auto simp: zero_less_divide_iff zero_less_mult_iff)
  from 1 2 show ?thesis by blast
qed

theorem breakeven_rule_witness:
  "year3Cost (calculateScenario sampleData
       (calculateTCO sampleData (calculateHealthMetrics sampleData)) Terraform None)
     < totalAnnualTco (calculateTCO sampleData (calculateHealthMetrics sampleData)) \<and>
   breakEvenMonths (calculateScenario sampleData
       (calculateTCO sampleData (calculateHealthMetrics sampleData)) Terraform None) =
     Some (293166720 / 22315987)"
proof -
  let ?t = "calculateTCO sampleData (calculateHealthMetrics sampleData)"
  let ?s = "calculateScenario sampleData ?t Terraform None"
  have t: "totalAnnualTco ?t = 1835356825 / 52"
    by (rule reference_tco [OF sample_is_reference])
  have y: "year3Cost ?s = 415568705 / 26"
    by (simp add: scenario_fields calculateTCO_def Let_def sampleData_def)
  have m: "migrationCost ?s = 274843800 / 13"
    by (simp add: scenario_fields calculateMigrationCost_def Let_def sampleData_def
        tier1Hours_def tier2Hours_def tier3Hours_def learningCurvePenalty_def)
  have h: "year3Cost ?s < totalAnnualTco ?t"
    by (simp add: t y)
  from breakeven_rule [of sampleData ?t Terraform None] h
  have "breakEvenMonths ?s =
          Some ((migrationCost ?s / (totalAnnualTco ?t - year3Cost ?s)) * 12)"
    by blast
  then have "breakEvenMonths ?s = Some (293166720 / 22315987)"
    by (simp add: t y m)
  with h show ?thesis by blast
qed

lemma npv_minus_migration:
  "npv3Year (calculateScenario d tco p None) =
     (totalAnnualTco tco -
        (totalManagedNodes (infrastructure d) * perNodeCost_of (alternatives p) * 0.5 +
         licensingCost tco * 0.5 + laborCosts tco * 1.2 + infrastructureCost tco * 0.7)) / 1.1 +
     (totalAnnualTco tco - year2Cost (calculateScenario d tco p None)) / 1.1 ^ 2 +
     (totalAnnualTco tco - year3Cost (calculateScenario d tco p None)) / 1.1 ^ 3 -
     migrationCost (calculateScenario d tco p None) / 1.1"
  unfolding scenario_fields by (simp add: field_simps)

text \<open>
  Claim C7. With the default discount rate, the 3-year NPV of a scenario is the sum over
  the years 1, 2 and 3 of (current total annual TCO - cost of that year) divided by 1.10
  to the power of the year. The migration cost is a summand of the year-1 cost and of no
  other year, and it is not subtracted again: the NPV is the discounted savings computed
  without it, less the migration cost discounted once as part of year 1.
\<close>

theorem npv_three_years:
  "npv3Year (calculateScenario d tco p None) =
     (totalAnnualTco tco - year1Cost (calculateScenario d tco p None)) / 1.1 ^ 1 +
     (totalAnnualTco tco - year2Cost (calculateScenario d tco p None)) / 1.1 ^ 2 +
     (totalAnnualTco tco - year3Cost (calculateScenario d tco p None)) / 1.1 ^ 3 \<and>
   year1Cost (calculateScenario d tco p None) =
     migrationCost (calculateScenario d tco p None) +
     (totalManagedNodes (infrastructure d) * perNodeCost_of (alternatives p) * 0.5 +
      licensingCost tco * 0.5 + laborCosts tco * 1.2 + infrastructureCost tco * 0.7) \<and>
   year2Cost (calculateScenario d tco p None) =
     totalManagedNodes (infrastructure d) * perNodeCost_of (alternatives p) +
     laborCosts tco * 0.7 * 1.1 + infrastructureCost tco * 0.7 + trainingCost tco * 0.5 \<and>
   year3Cost (calculateScenario d tco p None) =
     totalManagedNodes (infrastructure d) * perNodeCost_of (alternatives p) +
     laborCosts tco * 0.7 + infrastructureCost tco * 0.7 * 0.9 \<and>
   npv3Year (calculateScenario d tco p None) =
     (totalAnnualTco tco -
        (totalManagedNodes (infrastructure d) * perNodeCost_of (alternatives p) * 0.5 +
         licensingCost tco * 0.5 + laborCosts tco * 1.2 + infrastructureCost tco * 0.7)) / 1.1 +
     (totalAnnualTco tco - year2Cost (calculateScenario d tco p None)) / 1.1 ^ 2 +
     (totalAnnualTco tco - year3Cost (calculateScenario d tco p None)) / 1.1 ^ 3 -
     migrationCost (calculateScenario d tco p None) / 1.1"
proof -
  have "npv3Year (calculateScenario d tco p None) =
     (totalAnnualTco tco - year1Cost (calculateScenario d tco p None)) / 1.1 ^ 1 +
     (totalAnnualTco tco - year2Cost (calculateScenario d tco p None)) / 1.1 ^ 2 +
     (totalAnnualTco tco - year3Cost (calculateScenario d tco p None)) / 1.1 ^ 3"
    by (simp add: scenario_fields(6))
  moreover have "year1Cost (calculateScenario d tco p None) =
     migrationCost (calculateScenario d tco p None) +
     (totalManagedNodes (infrastructure d) * perNodeCost_of (alternatives p) * 0.5 +
      licensingCost tco * 0.5 + laborCosts tco * 1.2 + infrastructureCost tco * 0.7)"
    by (simp add: scenario_fields)
  moreover have "year2Cost (calculateScenario d tco p None) =
     totalManagedNodes (infrastructure d) * perNodeCost_of (alternatives p) +
     laborCosts tco * 0.7 * 1.1 + infrastructureCost tco * 0.7 + trainingCost tco * 0.5"
    by (simp add: scenario_fields)
  moreover have "year3Cost (calculateScenario d tco p None) =
     totalManagedNodes (infrastructure d) * perNodeCost_of (alternatives p) +
     laborCosts tco * 0.7 + infrastructureCost tco * 0.7 * 0.9"
    by (simp add: scenario_fields)
  ultimately show ?thesis
    using npv_minus_migration [of d tco p] by blast
qed

section \<open>The report\<close>

lemma set_insertSorted: "set (insertSorted cmp x xs) = insert x (set xs)"
  by (induction xs) auto

lemma length_insertSorted: "length (insertSorted cmp x xs) = Suc (length xs)"
  by (induction xs) auto

lemma sorted_insertSorted:
  assumes "sorted_wrt (\<lambda>a b. npv3Year b \<le> npv3Year a) xs"
  shows "sorted_wrt (\<lambda>a b. npv3Year b \<le> npv3Year a) (insertSorted byNpvDescending x xs)"
  using assms
proof (induction xs)
  case Nil
  then show ?case by simp
next
  case (Cons y ys)
  show ?case
  proof (cases "byNpvDescending y x \<le> 0")
    case True
    with Cons show ?thesis by (auto simp: set_insertSorted byNpvDescending_def)
  next
    case False
    then have "npv3Year y \<le> npv3Year x" by (simp add: byNpvDescending_def)
    with False Cons.prems show ?thesis by (auto dest: order_trans)
  qed
qed

lemma sorted_fold_insert:
  assumes "sorted_wrt (\<lambda>a b. npv3Year b \<le> npv3Year a) acc"
  shows "sorted_wrt (\<lambda>a b. npv3Year b \<le> npv3Year a)
           (foldl (\<lambda>acc x. insertSorted byNpvDescending x acc) acc xs)"
  using assms by (induction xs arbitrary: acc) (simp_all add: sorted_insertSorted)

lemma length_fold_insert:
  "length (foldl (\<lambda>acc x. insertSorted cmp x acc) acc xs) = length acc + length xs"
  by (induction xs arbitrary: acc) (simp_all add: length_insertSorted)

lemma set_fold_insert:
  "set (foldl (\<lambda>acc x. insertSorted cmp x acc) acc xs) = set acc \<union> set xs"
  by (induction xs arbitrary: acc) (simp_all add: set_insertSorted)

lemma js_sort_by_npv: "sorted_wrt (\<lambda>a b. npv3Year b \<le> npv3Year a) (js_sort byNpvDescending xs)"
  unfolding js_sort_def by (rule sorted_fold_insert) simp

lemma length_js_sort: "length (js_sort cmp xs) = length xs"
  by (simp add: js_sort_def length_fold_insert)

lemma set_js_sort: "set (js_sort cmp xs) = set xs"
  by (simp add: js_sort_def set_fold_insert)

lemma report_scenarios:
  "scenarios (generateAnalysisReport d) =
     js_sort byNpvDescending
       (map (\<lambda>p. calculateScenario d (calculateTCO d (calculateHealthMetrics d)) p None) alternativeKeys)"
  by (simp add: generateAnalysisReport_def Let_def)

text \<open>
  Claim C8. The scenarios of the report are in non-increasing order of their 3-year NPV:
  every element's NPV is greater than or equal to that of every later element, the next
  one in particular. The list holds the four scenarios computed from the report's cost
  breakdown, one for each platform.
\<close>

theorem scenarios_sorted_by_npv:
  "sorted_wrt (\<lambda>a b. npv3Year a \<ge> npv3Year b) (scenarios (generateAnalysisReport d)) \<and>
   length (scenarios (generateAnalysisReport d)) = 4 \<and>
   set (scenarios (generateAnalysisReport d)) =
     (\<lambda>p. calculateScenario d (costBreakdown (generateAnalysisReport d)) p None) `
       {Ansible, Kubernetes, Terraform, Puppet}"
  by (simp add: report_fields js_sort_by_npv length_js_sort set_js_sort alternativeKeys_def)

text \<open>
  Claim C9, as stated, fails. The sample snapshot has 45 dedicated engineers and 120
  part-time contributors at 20 percent, a total of 69 FTE; the per-FTE cost of its report
  is the total annual TCO divided by 45, not by 69.
\<close>

theorem per_fte_counterexample:
  "totalFte sampleData = 69 \<and>
   perFte (perUnitCosts (generateAnalysisReport sampleData)) \<noteq>
     totalAnnualTco (costBreakdown (generateAnalysisReport sampleData)) /
       max 1 (totalFte sampleData) \<and>
   perFte (perUnitCosts (generateAnalysisReport sampleData)) =
     totalAnnualTco (costBreakdown (generateAnalysisReport sampleData)) / 45"
proof -
  have f: "totalFte sampleData = 69"
    by (simp add: totalFte_def sampleData_def)
  have t: "totalAnnualTco (calculateTCO sampleData (calculateHealthMetrics sampleData)) =
             1835356825 / 52"
    by (rule reference_tco [OF sample_is_reference])
  have e: "dedicatedEngineers (team sampleData) = 45"
    by (simp add: sampleData_def)
  show ?thesis
    by (simp add: f t e report_fields)
qed

text \<open>
  Claim C9, amended. The per-unit costs of the report are the total annual TCO divided
  by the total node count, by the active cookbook count, and by the number of dedicated
  engineers (part-time contributors do not enter), each denominator clamped to a minimum
  of 1.
\<close>

theorem per_unit_costs:
  "perNode (perUnitCosts (generateAnalysisReport d)) =
     totalAnnualTco (costBreakdown (generateAnalysisReport d)) /
       max 1 (totalManagedNodes (infrastructure d)) \<and>
   perCookbook (perUnitCosts (generateAnalysisReport d)) =
     totalAnnualTco (costBreakdown (generateAnalysisReport d)) /
       max 1 (activeCookbooks (cookbooks d)) \<and>
   perFte (perUnitCosts (generateAnalysisReport d)) =
     totalAnnualTco (costBreakdown (generateAnalysisReport d)) /
       max 1 (dedicatedEngineers (team d))"
  by (simp add: report_fields)

section \<open>Division by zero\<close>

lemma savings_percent_finite_iff:
  "is_finite (savingsPercent (calculateScenario d tco p rate)) \<longleftrightarrow> totalAnnualTco tco \<noteq> 0"
  by (simp add: calculateScenario_def Let_def js_div_def js_scale_def is_finite_def)

text \<open>
  Claim C2. The savings percentage of a scenario divides by three times the current TCO,
  and nothing checks that value. For the snapshot with every field zero the current TCO
  is 0, every scenario has a three-year total of 0, and the savings percentage of each of
  the four scenarios of the report is 0 / 0, not a number.
\<close>

theorem savings_percent_zero_snapshot:
  "totalAnnualTco (costBreakdown (generateAnalysisReport zeroData)) = 0 \<and>
   map threeYearTotal (scenarios (generateAnalysisReport zeroData)) = [0, 0, 0, 0] \<and>
   map savingsPercent (scenarios (generateAnalysisReport zeroData)) = [NaN, NaN, NaN, NaN]"
  by (simp add: engine_defs snapshot_defs)

end
